theory Spec2Isabelle
  imports Main "HOL-Library.Sublist"
begin

section \<open>Configuration records (package config)\<close>

text \<open>
  The three configuration structs of package \<open>config\<close>.  Go's \<open>int\<close> fields are only
  ever compared with zero and copied, never computed with, so they are modelled as
  \<open>int\<close>.  The field \<open>Enabled *bool\<close> is a nullable pointer and becomes a
  \<open>bool option\<close> (\<open>None\<close> is \<open>nil\<close>).  Field names are prefixed with the struct
  they belong to, because several structs share field names.
\<close>

record TaskConfig =
  task_Name :: string
  task_Target :: string
  task_Method :: string
  task_Payload :: string
  task_Schedule :: string
  task_Enabled :: "bool option"
  task_RunOnStart :: bool
  task_ReplyWaitSeconds :: int
  task_ReplyHistoryLimit :: int

record AccountConfig =
  acc_Name :: string
  acc_Phone :: string
  acc_Password :: string
  acc_AppID :: int
  acc_AppHash :: string
  acc_WorkerCount :: int
  acc_TaskQueueSize :: int
  acc_ReplyWaitSeconds :: int
  acc_ReplyHistoryLimit :: int
  acc_Tasks :: "TaskConfig list"

record LogConfig =
  log_Dir :: string
  log_Level :: string
  log_Format :: string

record Config =
  cfg_Accounts :: "AccountConfig list"
  cfg_Proxy :: string
  cfg_AppID :: int
  cfg_AppHash :: string
  cfg_ReplyWaitSeconds :: int
  cfg_ReplyHistoryLimit :: int
  cfg_Log :: LogConfig
  cfg_Language :: string

text \<open>The zero value \<open>config.TaskConfig{}\<close>, which the callers of \<open>resolveReplyConfig\<close> pass.\<close>

definition TaskConfig_zero :: TaskConfig where
  "TaskConfig_zero =
     \<lparr>task_Name = [], task_Target = [], task_Method = [], task_Payload = [],
      task_Schedule = [], task_Enabled = None, task_RunOnStart = False,
      task_ReplyWaitSeconds = 0, task_ReplyHistoryLimit = 0\<rparr>"

text \<open>Every error value the modelled functions can return.\<close>

datatype error =
    AccountsLengthMismatch nat nat   \<comment> \<open>\<open>accounts length mismatch: base=%d override=%d\<close>\<close>
  | MissingAppCredentials            \<comment> \<open>\<open>missing app_id or app_hash\<close>\<close>
  | UnknownMethod string             \<comment> \<open>\<open>unknown method %q\<close>, with the method value\<close>
  | ScheduleParseError string        \<comment> \<open>the cron engine rejected this expression\<close>
  | RemoteError string               \<comment> \<open>an error returned by the messenger client\<close>
  | SubmitFailed string              \<comment> \<open>\<open>failed to submit task: %s\<close>, with the task name\<close>
  | ContextCanceled                  \<comment> \<open>\<open>ctx.Err()\<close> of a cancelled context\<close>

section \<open>Reply-policy resolution (scheduler.go)\<close>

text \<open>
  \<open>resolveReplyConfig\<close>: the two results start at the defaults and are overwritten in
  turn by the global, the account and the task value, each only when positive.
\<close>

definition resolveReplyConfig :: "Config \<Rightarrow> AccountConfig \<Rightarrow> TaskConfig \<Rightarrow> int \<times> int" where
  "resolveReplyConfig cfg acc task =
     (let replyWaitSeconds = 3;
          replyHistoryLimit = 10;
          replyWaitSeconds =
            (if cfg_ReplyWaitSeconds cfg > 0 then cfg_ReplyWaitSeconds cfg else replyWaitSeconds);
          replyHistoryLimit =
            (if cfg_ReplyHistoryLimit cfg > 0 then cfg_ReplyHistoryLimit cfg else replyHistoryLimit);
          replyWaitSeconds =
            (if acc_ReplyWaitSeconds acc > 0 then acc_ReplyWaitSeconds acc else replyWaitSeconds);
          replyHistoryLimit =
            (if acc_ReplyHistoryLimit acc > 0 then acc_ReplyHistoryLimit acc else replyHistoryLimit);
          replyWaitSeconds =
            (if task_ReplyWaitSeconds task > 0 then task_ReplyWaitSeconds task else replyWaitSeconds);
          replyHistoryLimit =
            (if task_ReplyHistoryLimit task > 0 then task_ReplyHistoryLimit task else replyHistoryLimit)
      in (replyWaitSeconds, replyHistoryLimit))"

text \<open>\<open>resolveAppConfig\<close>: the account's credentials, falling back to the global ones.\<close>

definition resolveAppConfig :: "Config \<Rightarrow> AccountConfig \<Rightarrow> error + (int \<times> string)" where
  "resolveAppConfig cfg acc =
     (let appID = acc_AppID acc;
          appHash = acc_AppHash acc;
          appID = (if appID = 0 then cfg_AppID cfg else appID);
          appHash = (if appHash = [] then cfg_AppHash cfg else appHash)
      in if appID = 0 \<or> appHash = [] then Inl MissingAppCredentials
         else Inr (appID, appHash))"

section \<open>Configuration merging (package config)\<close>

subsection \<open>Go's \<open>strings.TrimSpace\<close>\<close>

text \<open>
  \<open>strings.TrimSpace\<close> belongs to the Go standard library, not to the repository.  It
  removes every leading and every trailing Unicode white-space code point.  A Go string
  is a sequence of bytes holding UTF-8, so the white-space code points are listed here
  by their UTF-8 encodings: the six ASCII ones, U+0085, U+00A0, U+1680, U+2000 to U+200A,
  U+2028, U+2029, U+202F, U+205F and U+3000.
\<close>

definition space_runes :: "string list" where
  "space_runes =
     [[CHR 0x09], [CHR 0x0A], [CHR 0x0B], [CHR 0x0C], [CHR 0x0D], [CHR 0x20],
      [CHR 0xC2, CHR 0x85], [CHR 0xC2, CHR 0xA0],
      [CHR 0xE1, CHR 0x9A, CHR 0x80],
      [CHR 0xE2, CHR 0x80, CHR 0x80], [CHR 0xE2, CHR 0x80, CHR 0x81],
      [CHR 0xE2, CHR 0x80, CHR 0x82], [CHR 0xE2, CHR 0x80, CHR 0x83],
      [CHR 0xE2, CHR 0x80, CHR 0x84], [CHR 0xE2, CHR 0x80, CHR 0x85],
      [CHR 0xE2, CHR 0x80, CHR 0x86], [CHR 0xE2, CHR 0x80, CHR 0x87],
      [CHR 0xE2, CHR 0x80, CHR 0x88], [CHR 0xE2, CHR 0x80, CHR 0x89],
      [CHR 0xE2, CHR 0x80, CHR 0x8A],
      [CHR 0xE2, CHR 0x80, CHR 0xA8], [CHR 0xE2, CHR 0x80, CHR 0xA9],
      [CHR 0xE2, CHR 0x80, CHR 0xAF], [CHR 0xE2, CHR 0x81, CHR 0x9F],
      [CHR 0xE3, CHR 0x80, CHR 0x80]]"

text \<open>
  The number of bytes of the white-space code point that starts \<open>s\<close>, among the given
  encodings; \<open>0\<close> when \<open>s\<close> starts with none of them.
\<close>

definition lead_width :: "string list \<Rightarrow> string \<Rightarrow> nat" where
  "lead_width encs s = (case find (\<lambda>e. e \<noteq> [] \<and> prefix e s) encs of
                          None \<Rightarrow> 0 | Some e \<Rightarrow> length e)"

lemma lead_width_le: "lead_width encs s \<le> length s"
  by (auto simp: lead_width_def prefix_def split: option.splits dest!: find_Some_iff[THEN iffD1])

lemma lead_width_decreases:
  "lead_width encs s \<noteq> 0 \<Longrightarrow> length s - lead_width encs s < length s"
  using lead_width_le [of encs s] by arith

function strip_leading :: "string list \<Rightarrow> string \<Rightarrow> string" where
  "strip_leading encs s =
     (if lead_width encs s = 0 then s else strip_leading encs (drop (lead_width encs s) s))"
  by pat_completeness auto
termination
  by (relation "measure (\<lambda>(encs, s). length s)") (auto intro: lead_width_decreases)

declare strip_leading.simps [simp del]

definition TrimSpace :: "string \<Rightarrow> string" where
  "TrimSpace s =
     rev (strip_leading (map rev space_runes) (rev (strip_leading space_runes s)))"

subsection \<open>Tasks\<close>

text \<open>\<open>mergeTask\<close>: a copy of the base task, six of whose fields the override may replace.\<close>

definition mergeTask :: "TaskConfig \<Rightarrow> TaskConfig \<Rightarrow> TaskConfig" where
  "mergeTask base override =
     (let merged = base;
          merged = (if task_Target override \<noteq> []
                    then merged\<lparr>task_Target := task_Target override\<rparr> else merged);
          merged = (if task_Method override \<noteq> []
                    then merged\<lparr>task_Method := task_Method override\<rparr> else merged);
          merged = (if task_Payload override \<noteq> []
                    then merged\<lparr>task_Payload := task_Payload override\<rparr> else merged);
          merged = (if task_Schedule override \<noteq> []
                    then merged\<lparr>task_Schedule := task_Schedule override\<rparr> else merged);
          merged = (if task_Enabled override \<noteq> None
                    then merged\<lparr>task_Enabled := task_Enabled override\<rparr> else merged);
          merged = (if task_RunOnStart override
                    then merged\<lparr>task_RunOnStart := True\<rparr> else merged)
      in merged)"

text \<open>
  \<open>mergeTasks\<close>: the loop \<open>for i := 0; i < maxLen; i++\<close>, with the index and the slice
  built so far as arguments.  \<open>base[i]\<close> and \<open>override[i]\<close> are read only under the
  guards \<open>hasBase\<close> and \<open>hasOverride\<close>, as in the source.
\<close>

function mergeTasks_loop ::
  "nat \<Rightarrow> nat \<Rightarrow> TaskConfig list \<Rightarrow> TaskConfig list \<Rightarrow> TaskConfig list \<Rightarrow> TaskConfig list" where
  "mergeTasks_loop i maxLen base override merged =
     (if i < maxLen then
        (let hasBase = i < length base;
             hasOverride = i < length override;
             b = (if hasBase then base ! i else TaskConfig_zero);
             ov = (if hasOverride then override ! i else TaskConfig_zero)
         in mergeTasks_loop (i + 1) maxLen base override
              (merged @ [if hasBase \<and> hasOverride then mergeTask b ov
                         else if hasBase then b else ov]))
      else merged)"
  by pat_completeness auto
termination
  by (relation "measure (\<lambda>(i, maxLen, base, override, merged). maxLen - i)") auto

declare mergeTasks_loop.simps [simp del]

definition mergeTasks :: "TaskConfig list \<Rightarrow> TaskConfig list \<Rightarrow> TaskConfig list" where
  "mergeTasks base override =
     (let maxLen = length base;
          maxLen = (if length override > maxLen then length override else maxLen)
      in mergeTasks_loop 0 maxLen base override [])"

subsection \<open>Accounts\<close>

text \<open>\<open>mergeAccount\<close>: a copy of the base account; five scalar fields and the task list
  may be replaced.\<close>

definition mergeAccount :: "AccountConfig \<Rightarrow> AccountConfig \<Rightarrow> AccountConfig" where
  "mergeAccount base override =
     (let merged = base;
          merged = (if acc_Name override \<noteq> []
                    then merged\<lparr>acc_Name := acc_Name override\<rparr> else merged);
          merged = (if acc_Phone override \<noteq> []
                    then merged\<lparr>acc_Phone := acc_Phone override\<rparr> else merged);
          merged = (if acc_Password override \<noteq> []
                    then merged\<lparr>acc_Password := acc_Password override\<rparr> else merged);
          merged = (if acc_AppID override \<noteq> 0
                    then merged\<lparr>acc_AppID := acc_AppID override\<rparr> else merged);
          merged = (if acc_AppHash override \<noteq> []
                    then merged\<lparr>acc_AppHash := acc_AppHash override\<rparr> else merged);
          merged = (if length (acc_Tasks override) > 0
                    then merged\<lparr>acc_Tasks := mergeTasks (acc_Tasks base) (acc_Tasks override)\<rparr>
                    else merged)
      in merged)"

text \<open>\<open>allAccountsNamed\<close>: false for the empty slice, else whether no name is blank.\<close>

fun allAccountsNamed_loop :: "AccountConfig list \<Rightarrow> bool" where
  "allAccountsNamed_loop [] = True"
| "allAccountsNamed_loop (acc # rest) =
     (if TrimSpace (acc_Name acc) = [] then False else allAccountsNamed_loop rest)"

definition allAccountsNamed :: "AccountConfig list \<Rightarrow> bool" where
  "allAccountsNamed accounts =
     (if length accounts = 0 then False else allAccountsNamed_loop accounts)"

text \<open>
  \<open>mergeAccountsByName\<close>.  \<open>overrideIndex\<close> is the map from trimmed name to override
  account that the first loop fills (a later account with the same trimmed name
  replaces an earlier one); \<open>seen\<close> is the set of keys the second loop marks.
\<close>

fun overrideIndex_loop ::
  "AccountConfig list \<Rightarrow> (string \<rightharpoonup> AccountConfig) \<Rightarrow> (string \<rightharpoonup> AccountConfig)" where
  "overrideIndex_loop [] overrideIndex = overrideIndex"
| "overrideIndex_loop (acc # rest) overrideIndex =
     overrideIndex_loop rest (overrideIndex(TrimSpace (acc_Name acc) \<mapsto> acc))"

fun byName_base_loop ::
  "(string \<rightharpoonup> AccountConfig) \<Rightarrow> AccountConfig list \<Rightarrow> AccountConfig list \<times> string set
     \<Rightarrow> AccountConfig list \<times> string set" where
  "byName_base_loop overrideIndex [] (merged, seen) = (merged, seen)"
| "byName_base_loop overrideIndex (acc # rest) (merged, seen) =
     (let key = TrimSpace (acc_Name acc)
      in case overrideIndex key of
           Some over \<Rightarrow>
             byName_base_loop overrideIndex rest
               (merged @ [mergeAccount acc over], insert key seen)
         | None \<Rightarrow> byName_base_loop overrideIndex rest (merged @ [acc], seen))"

fun byName_override_loop ::
  "string set \<Rightarrow> AccountConfig list \<Rightarrow> AccountConfig list \<Rightarrow> AccountConfig list" where
  "byName_override_loop seen [] merged = merged"
| "byName_override_loop seen (acc # rest) merged =
     (let key = TrimSpace (acc_Name acc)
      in if key \<in> seen then byName_override_loop seen rest merged
         else byName_override_loop seen rest (merged @ [acc]))"

definition mergeAccountsByName :: "AccountConfig list \<Rightarrow> AccountConfig list \<Rightarrow> AccountConfig list" where
  "mergeAccountsByName base override =
     (let overrideIndex = overrideIndex_loop override Map.empty;
          (merged, seen) = byName_base_loop overrideIndex base ([], {})
      in byName_override_loop seen override merged)"

text \<open>The zero value \<open>AccountConfig{}\<close> of \<open>var b AccountConfig\<close>.\<close>

definition AccountConfig_zero :: AccountConfig where
  "AccountConfig_zero =
     \<lparr>acc_Name = [], acc_Phone = [], acc_Password = [], acc_AppID = 0, acc_AppHash = [],
      acc_WorkerCount = 0, acc_TaskQueueSize = 0, acc_ReplyWaitSeconds = 0,
      acc_ReplyHistoryLimit = 0, acc_Tasks = []\<rparr>"

text \<open>\<open>mergeAccountsByIndex\<close>: the same index loop as \<open>mergeTasks\<close>, over accounts.\<close>

function mergeAccountsByIndex_loop ::
  "nat \<Rightarrow> nat \<Rightarrow> AccountConfig list \<Rightarrow> AccountConfig list \<Rightarrow> AccountConfig list
     \<Rightarrow> AccountConfig list" where
  "mergeAccountsByIndex_loop i maxLen base override merged =
     (if i < maxLen then
        (let hasBase = i < length base;
             hasOverride = i < length override;
             b = (if hasBase then base ! i else AccountConfig_zero);
             ov = (if hasOverride then override ! i else AccountConfig_zero)
         in mergeAccountsByIndex_loop (i + 1) maxLen base override
              (merged @ [if hasBase \<and> hasOverride then mergeAccount b ov
                         else if hasBase then b else ov]))
      else merged)"
  by pat_completeness auto
termination
  by (relation "measure (\<lambda>(i, maxLen, base, override, merged). maxLen - i)") auto

declare mergeAccountsByIndex_loop.simps [simp del]

definition mergeAccountsByIndex :: "AccountConfig list \<Rightarrow> AccountConfig list \<Rightarrow> AccountConfig list" where
  "mergeAccountsByIndex base override =
     (let maxLen = length base;
          maxLen = (if length override > maxLen then length override else maxLen)
      in mergeAccountsByIndex_loop 0 maxLen base override [])"

text \<open>\<open>mergeAccounts\<close>: by name when both slices pass \<open>allAccountsNamed\<close>, else by index,
  which is refused when the lengths differ.\<close>

definition mergeAccounts ::
  "AccountConfig list \<Rightarrow> AccountConfig list \<Rightarrow> error + AccountConfig list" where
  "mergeAccounts base override =
     (if length override = 0 then Inr base
      else if allAccountsNamed base \<and> allAccountsNamed override
      then Inr (mergeAccountsByName base override)
      else if length base \<noteq> length override
      then Inl (AccountsLengthMismatch (length base) (length override))
      else Inr (mergeAccountsByIndex base override))"

subsection \<open>The whole configuration\<close>

text \<open>
  \<open>MergeConfig\<close> takes and returns \<open>*Config\<close>; \<open>nil\<close> is \<open>None\<close>.  The Go result
  \<open>(nil, err)\<close> is \<open>Inl err\<close> and \<open>(p, nil)\<close> is \<open>Inr p\<close>, where \<open>p\<close> may itself be
  \<open>nil\<close> (when both arguments are).
\<close>

definition MergeConfig :: "Config option \<Rightarrow> Config option \<Rightarrow> error + Config option" where
  "MergeConfig base override =
     (case base of
        None \<Rightarrow> Inr override
      | Some b \<Rightarrow>
         (case override of
            None \<Rightarrow> Inr base
          | Some ov \<Rightarrow>
             (let merged = b;
                  merged = (if cfg_Proxy ov \<noteq> []
                            then merged\<lparr>cfg_Proxy := cfg_Proxy ov\<rparr> else merged);
                  merged = (if cfg_AppID ov \<noteq> 0
                            then merged\<lparr>cfg_AppID := cfg_AppID ov\<rparr> else merged);
                  merged = (if cfg_AppHash ov \<noteq> []
                            then merged\<lparr>cfg_AppHash := cfg_AppHash ov\<rparr> else merged)
              in if length (cfg_Accounts ov) > 0
                 then (case mergeAccounts (cfg_Accounts b) (cfg_Accounts ov) of
                         Inl err \<Rightarrow> Inl err
                       | Inr accounts \<Rightarrow> Inr (Some (merged\<lparr>cfg_Accounts := accounts\<rparr>)))
                 else Inr (Some merged))))"

section \<open>Logging\<close>

text \<open>
  The program logs through \<open>zerolog\<close>: every event has a level, a message and a list
  of named fields.  A logger is an external sink; the model records the events a
  function emits, in order, as part of its result.
\<close>

datatype level = DebugLevel | InfoLevel | WarnLevel | ErrorLevel

datatype field_value = StrField string | IntField int | ErrField error

datatype log_event = LogEvent level string "(string \<times> field_value) list"

section \<open>The task executor (executor.go)\<close>

text \<open>
  A \<open>TaskRequest\<close> without its \<open>Logger\<close> field (the events written to it are
  recorded with the sink \<open>RequestLog\<close> below).
\<close>

record TaskRequest =
  req_Task :: TaskConfig
  req_TriggerType :: string
  req_WorkerID :: int

text \<open>
  The executor.  The buffered channel \<open>taskQueue\<close> is its content (oldest first), its
  capacity and whether \<open>close\<close> has been called on it; \<open>cancelled\<close> is the state of
  the executor's own context.  The client, the wait group and the logger are external
  and are not part of the record.
\<close>

record TaskExecutor =
  taskQueue :: "TaskRequest list"
  queueCap :: nat
  queueClosed :: bool
  workerCount :: int
  cancelled :: bool
  logDir :: string
  logFormat :: string
  accountName :: string

text \<open>
  What a call of a function that works on a channel can do: return, block the calling
  goroutine, or panic.
\<close>

datatype go_panic = MakechanSizeOutOfRange | SendOnClosedChannel | CloseOfClosedChannel

datatype 'a outcome = Returns 'a | Blocks | Panics go_panic

text \<open>
  \<open>NewTaskExecutor\<close>.  The queue size, once the default has replaced a non-positive
  value, goes unchecked to \<open>make(chan TaskRequest, queueSize)\<close>, and the Go runtime
  panics with \<open>makechan: size out of range\<close> when the buffer would exceed what it can
  allocate.  The largest capacity it accepts for a channel of \<open>TaskRequest\<close> is the
  allocation limit of the platform divided by the size of a \<open>TaskRequest\<close>; it is
  fixed by the platform and the compiler, not by the repository, and is the parameter
  \<open>chanCapLimit\<close>.
\<close>

definition NewTaskExecutor ::
  "nat \<Rightarrow> int \<Rightarrow> int \<Rightarrow> string \<Rightarrow> string \<Rightarrow> string \<Rightarrow> TaskExecutor outcome" where
  "NewTaskExecutor chanCapLimit workerCount' queueSize' logDir' logFormat' accountName' =
     (let workerCount' = (if workerCount' \<le> 0 then 4 else workerCount');
          queueSize' = (if queueSize' \<le> 0 then 100 else queueSize');
          logFormat' = (if logFormat' = [] then ''text'' else logFormat')
      in if int chanCapLimit < queueSize' then Panics MakechanSizeOutOfRange
         else Returns
                \<lparr>taskQueue = [], queueCap = nat queueSize', queueClosed = False,
                 workerCount = workerCount', cancelled = False,
                 logDir = logDir', logFormat = logFormat', accountName = accountName'\<rparr>)"



text \<open>
  \<open>SubmitTaskBlocking\<close>: a \<open>select\<close> between \<open>ctx.Done()\<close> and the send, without a
  \<open>default\<close> case.  \<open>ctxDone\<close> says whether the context is cancelled; when both cases
  are ready the runtime picks one, and \<open>pickDone\<close> says whether it picks the first.
\<close>

definition SubmitTaskBlocking ::
  "TaskExecutor \<Rightarrow> bool \<Rightarrow> bool \<Rightarrow> TaskConfig \<Rightarrow> string \<Rightarrow> (bool \<times> TaskExecutor) outcome" where
  "SubmitTaskBlocking e ctxDone pickDone task triggerType =
     (let sendReady = (queueClosed e \<or> length (taskQueue e) < queueCap e)
      in if ctxDone \<and> (\<not> sendReady \<or> pickDone) then Returns (False, e)
         else if sendReady
         then (if queueClosed e then Panics SendOnClosedChannel
               else Returns (True,
                      e\<lparr>taskQueue := taskQueue e @
                           [\<lparr>req_Task = task, req_TriggerType = triggerType,
                             req_WorkerID = 0\<rparr>]\<rparr>))
         else Blocks)"



subsection \<open>Dispatch\<close>

text \<open>
  The messenger client is external.  It is a parameter: a transition function on an
  arbitrary client state \<open>'c\<close> that answers each of the two calls with \<open>nil\<close>
  (\<open>None\<close>) or an error.
\<close>

datatype client_call =
    CheckInMessageInRunWithLogger string string
  | CheckInButtonInRunWithLogger string string

type_synonym 'c taskClient = "'c \<Rightarrow> client_call \<Rightarrow> error option \<times> 'c"

definition executeTaskWithLogger ::
  "'c taskClient \<Rightarrow> 'c \<Rightarrow> TaskConfig \<Rightarrow> error option \<times> 'c" where
  "executeTaskWithLogger client c task =
     (if task_Method task = ''message''
      then client c (CheckInMessageInRunWithLogger (task_Target task) (task_Payload task))
      else if task_Method task = ''button''
      then client c (CheckInButtonInRunWithLogger (task_Target task) (task_Payload task))
      else (Some (UnknownMethod (task_Method task)), c))"

subsection \<open>Executing one request\<close>

text \<open>
  The three loggers \<open>executeTask\<close> writes to: the executor's own (\<open>e.log\<close>), the
  request's (\<open>req.Logger\<close>) and the task's log file.
\<close>

datatype sink = ExecutorLog | RequestLog | TaskFileLog

text \<open>The start events, by trigger type: one on the task logger, one on the request's.\<close>

definition start_msg :: "string \<Rightarrow> string" where
  "start_msg triggerType =
     (if triggerType = ''run_on_start'' then ''Executing startup task...''
      else if triggerType = ''scheduled'' then ''Executing scheduled task...''
      else ''Executing task...'')"

definition failure_msg :: "string \<Rightarrow> string" where
  "failure_msg triggerType =
     (if triggerType = ''run_on_start'' then ''Startup task failed''
      else if triggerType = ''scheduled'' then ''Scheduled task failed''
      else ''Task failed'')"

text \<open>
  \<open>(e *TaskExecutor) executeTask\<close>.  \<open>createTaskLogger\<close> stands for
  \<open>logger.CreateTaskLogger\<close>, which creates a file and so depends on the file system:
  it is a parameter that answers \<open>nil\<close> or an error.  When it fails the task logger is
  the request's logger.  The fields \<open>thread_id\<close>, \<open>thread_name\<close>, \<open>task\<close> and
  \<open>target\<close> that \<open>With()\<close> attaches to the task logger are written in front of the
  fields of each of its events.
\<close>

definition TaskExecutor_executeTask ::
  "(string \<Rightarrow> string \<Rightarrow> string \<Rightarrow> string \<Rightarrow> string \<Rightarrow> error option) \<Rightarrow> 'c taskClient
     \<Rightarrow> TaskExecutor \<Rightarrow> TaskRequest \<Rightarrow> 'c \<Rightarrow> (sink \<times> log_event) list \<times> 'c" where
  "TaskExecutor_executeTask createTaskLogger client e req c =
     (let taskName = (if task_Name (req_Task req) = [] then task_Target (req_Task req)
                      else task_Name (req_Task req));
          created = createTaskLogger (logDir e) (accountName e) taskName
                      (req_TriggerType req) (logFormat e);
          (evs0, taskSink) =
            (case created of
               Some err \<Rightarrow>
                 ([(ExecutorLog,
                    LogEvent ErrorLevel ''Failed to create task log file, using main log''
                      [(''error'', ErrField err), (''task'', StrField taskName)])],
                  RequestLog)
             | None \<Rightarrow> ([], TaskFileLog));
          ctxt = [(''thread_id'', IntField (req_WorkerID req)), (''thread_name'', StrField taskName),
                  (''task'', StrField taskName), (''target'', StrField (task_Target (req_Task req)))];
          ids = [(''thread_id'', IntField (req_WorkerID req)), (''thread_name'', StrField taskName),
                 (''task'', StrField taskName)];
          evs1 = [(taskSink, LogEvent InfoLevel (start_msg (req_TriggerType req)) ctxt),
                  (RequestLog, LogEvent DebugLevel (start_msg (req_TriggerType req)) ids)];
          (result, c') = executeTaskWithLogger client c (req_Task req)
      in case result of
           Some err \<Rightarrow>
             (evs0 @ evs1 @
              [(taskSink, LogEvent ErrorLevel (failure_msg (req_TriggerType req))
                  (ctxt @ [(''error'', ErrField err), (''payload'', StrField (task_Payload (req_Task req)))])),
               (RequestLog, LogEvent ErrorLevel (failure_msg (req_TriggerType req))
                  ((''error'', ErrField err) # ids @
                   [(''payload'', StrField (task_Payload (req_Task req)))]))],
              c')
         | None \<Rightarrow>
             (evs0 @ evs1 @
              [(taskSink, LogEvent InfoLevel ''Task completed successfully'' ctxt),
               (RequestLog, LogEvent InfoLevel ''Task completed successfully'' ids)],
              c'))"

subsection \<open>The worker loop\<close>

text \<open>
  One worker.  Each turn of its loop is a \<open>select\<close> over three channels; which case
  fires depends on the other goroutines, so the list of the cases that fire, turn by
  turn, is an argument.  \<open>QueueRecv\<close> receives the oldest request of the queue, or
  learns that the queue is closed and empty; on an open, empty queue nothing can be
  received and the worker stays in its \<open>select\<close>, as it does when the list is
  exhausted.  The result is the events, the executor and client state reached, and
  whether the worker has exited.
\<close>

datatype select_case = CtxDone | ExecutorCtxDone | QueueRecv

definition worker_exiting :: "int \<Rightarrow> sink \<times> log_event" where
  "worker_exiting wid = (ExecutorLog, LogEvent DebugLevel ''Worker exiting'' [(''worker_id'', IntField wid)])"

fun worker_loop ::
  "(string \<Rightarrow> string \<Rightarrow> string \<Rightarrow> string \<Rightarrow> string \<Rightarrow> error option) \<Rightarrow> 'c taskClient \<Rightarrow> int
     \<Rightarrow> select_case list \<Rightarrow> TaskExecutor \<times> 'c
     \<Rightarrow> (sink \<times> log_event) list \<times> (TaskExecutor \<times> 'c) \<times> bool" where
  "worker_loop createTaskLogger client wid [] (e, c) = ([], (e, c), False)"
| "worker_loop createTaskLogger client wid (CtxDone # rest) (e, c) =
     ([worker_exiting wid], (e, c), True)"
| "worker_loop createTaskLogger client wid (ExecutorCtxDone # rest) (e, c) =
     ([worker_exiting wid], (e, c), True)"
| "worker_loop createTaskLogger client wid (QueueRecv # rest) (e, c) =
     (case taskQueue e of
        [] \<Rightarrow> (if queueClosed e then ([worker_exiting wid], (e, c), True)
               else ([], (e, c), False))
      | req # queue \<Rightarrow>
          (let (evs, c') = TaskExecutor_executeTask createTaskLogger client e
                             (req\<lparr>req_WorkerID := wid\<rparr>) c;
               (evs', st, exited) = worker_loop createTaskLogger client wid rest
                                      (e\<lparr>taskQueue := queue\<rparr>, c')
           in (evs @ evs', st, exited)))"

definition worker ::
  "(string \<Rightarrow> string \<Rightarrow> string \<Rightarrow> string \<Rightarrow> string \<Rightarrow> error option) \<Rightarrow> 'c taskClient \<Rightarrow> int
     \<Rightarrow> select_case list \<Rightarrow> TaskExecutor \<times> 'c
     \<Rightarrow> (sink \<times> log_event) list \<times> (TaskExecutor \<times> 'c) \<times> bool" where
  "worker createTaskLogger client wid cases st =
     (let (evs, st', exited) = worker_loop createTaskLogger client wid cases st
      in ((ExecutorLog, LogEvent DebugLevel ''Worker started'' [(''worker_id'', IntField wid)]) # evs,
          st', exited))"

section \<open>The scheduler and the two run modes (scheduler.go)\<close>

subsection \<open>The scheduler\<close>

text \<open>
  A \<open>Scheduler\<close> wraps a \<open>cron.Cron\<close> of the external library \<open>robfig/cron\<close>.  Of
  that engine the model keeps the entries added so far and whether it has been
  started.  An entry is the schedule expression with the function to call; the
  function \<open>RunTasks\<close> registers is a closure over the task copy \<open>t\<close>, and the entry
  records that task.
\<close>

record ScheduleEntry =
  entry_Schedule :: string
  entry_Task :: TaskConfig

record Scheduler =
  cron_entries :: "ScheduleEntry list"
  cron_running :: bool

definition NewScheduler :: Scheduler where
  "NewScheduler = \<lparr>cron_entries = [], cron_running = False\<rparr>"

text \<open>
  \<open>AddTask\<close> returns the error of \<open>cron.AddFunc\<close>, which parses the expression and
  adds an entry only when the parse succeeds.  The parser is the library's:
  \<open>parseSchedule\<close> says which expressions it accepts.
\<close>

definition AddTask ::
  "(string \<Rightarrow> bool) \<Rightarrow> Scheduler \<Rightarrow> string \<Rightarrow> TaskConfig \<Rightarrow> Scheduler \<times> error option" where
  "AddTask parseSchedule s schedule task =
     (if parseSchedule schedule
      then (s\<lparr>cron_entries := cron_entries s @
                 [\<lparr>entry_Schedule = schedule, entry_Task = task\<rparr>]\<rparr>, None)
      else (s, Some (ScheduleParseError schedule)))"

definition Scheduler_Start :: "Scheduler \<Rightarrow> Scheduler" where
  "Scheduler_Start s = s\<lparr>cron_running := True\<rparr>"

definition isTaskEnabled :: "TaskConfig \<Rightarrow> bool" where
  "isTaskEnabled task = (case task_Enabled task of None \<Rightarrow> True | Some b \<Rightarrow> b)"

subsection \<open>What the run modes do to the outside\<close>

text \<open>
  The answers of the external collaborators are parameters: the cron parser, the
  client factory, the connection made by \<open>client.Run\<close>, the authentication, and, for
  the run-once mode, whether the context is cancelled when an account's turn comes and
  what \<open>SubmitTaskBlocking\<close> returns for a task (which depends on the workers and on
  cancellation).
\<close>

record env =
  parseSchedule :: "string \<Rightarrow> bool"
  factoryError :: "AccountConfig \<Rightarrow> error option"
  connectError :: "AccountConfig \<Rightarrow> error option"
  authError :: "AccountConfig \<Rightarrow> error option"
  ctxDoneBefore :: "AccountConfig \<Rightarrow> bool"
  submitBlockingResult :: "AccountConfig \<Rightarrow> TaskConfig \<Rightarrow> bool"

text \<open>
  The observable state of a run: the shared scheduler, the calls of \<open>SubmitTask\<close> and
  \<open>SubmitTaskBlocking\<close> made so far (task and trigger type, in order) and the events
  logged.
\<close>

record session =
  ses_scheduler :: Scheduler
  ses_submitted :: "(TaskConfig \<times> string) list"
  ses_log :: "log_event list"

definition session_start :: session where
  "session_start = \<lparr>ses_scheduler = NewScheduler, ses_submitted = [], ses_log = []\<rparr>"

definition log_to :: "session \<Rightarrow> log_event \<Rightarrow> session" where
  "log_to s ev = s\<lparr>ses_log := ses_log s @ [ev]\<rparr>"

subsection \<open>Daemon mode: \<open>RunTasks\<close>\<close>

text \<open>The first loop over an account's tasks: \<open>hasImmediateTasks\<close> and
  \<open>hasScheduledTasks\<close>.\<close>

fun scan_tasks :: "TaskConfig list \<Rightarrow> bool \<times> bool \<Rightarrow> bool \<times> bool" where
  "scan_tasks [] (hasImmediateTasks, hasScheduledTasks) =
     (hasImmediateTasks, hasScheduledTasks)"
| "scan_tasks (task # rest) (hasImmediateTasks, hasScheduledTasks) =
     (if \<not> isTaskEnabled task then scan_tasks rest (hasImmediateTasks, hasScheduledTasks)
      else scan_tasks rest
             (if task_RunOnStart task then True else hasImmediateTasks,
              if task_Schedule task \<noteq> [] then True else hasScheduledTasks))"

text \<open>The loop that submits the run-on-start tasks.\<close>

fun run_on_start_loop :: "TaskConfig list \<Rightarrow> session \<Rightarrow> session" where
  "run_on_start_loop [] s = s"
| "run_on_start_loop (task # rest) s =
     (if isTaskEnabled task \<and> task_RunOnStart task
      then run_on_start_loop rest
             (s\<lparr>ses_submitted := ses_submitted s @ [(task, ''run_on_start'')]\<rparr>)
      else run_on_start_loop rest s)"

text \<open>
  The message of the debug event for an added entry starts with a calendar sign
  (U+1F4C5) in the source, here in UTF-8.
\<close>

definition task_added_msg :: string where
  "task_added_msg = [CHR 0xF0, CHR 0x9F, CHR 0x93, CHR 0x85] @ '' Scheduled task added''"

text \<open>
  The loop that registers the scheduled tasks.  On an error of \<open>AddTask\<close> it logs and
  executes \<open>return err\<close>, which leaves the loop and the closure.
\<close>

fun schedule_loop ::
  "(string \<Rightarrow> bool) \<Rightarrow> TaskConfig list \<Rightarrow> session \<Rightarrow> session \<times> error option" where
  "schedule_loop parse [] s = (s, None)"
| "schedule_loop parse (task # rest) s =
     (if \<not> isTaskEnabled task \<or> task_Schedule task = [] then schedule_loop parse rest s
      else
        (let t = task;
             taskName = (if task_Name t = [] then task_Target t else task_Name t)
         in case AddTask parse (ses_scheduler s) (task_Schedule t) t of
              (sched, Some err) \<Rightarrow>
                (log_to (s\<lparr>ses_scheduler := sched\<rparr>)
                   (LogEvent ErrorLevel ''Failed to add scheduled task''
                      [(''error'', ErrField err), (''schedule'', StrField (task_Schedule t))]),
                 Some err)
            | (sched, None) \<Rightarrow>
                schedule_loop parse rest
                  (log_to (s\<lparr>ses_scheduler := sched\<rparr>)
                     (LogEvent DebugLevel task_added_msg
                        [(''schedule'', StrField (task_Schedule t)),
                         (''task'', StrField taskName),
                         (''target'', StrField (task_Target t))]))))"

text \<open>
  The closure \<open>RunTasks\<close> passes to \<open>client.Run\<close>, up to the point where it waits for
  the context to be cancelled.  The executor it creates is not part of the result; its
  worker count and queue size are the account's, with the defaults for non-positive
  values.
\<close>

definition daemon_closure ::
  "env \<Rightarrow> AccountConfig \<Rightarrow> bool \<Rightarrow> bool \<Rightarrow> session \<Rightarrow> session \<times> error option" where
  "daemon_closure ev acc hasImmediateTasks hasScheduledTasks s =
     (case authError ev acc of
        Some err \<Rightarrow>
          (log_to s (LogEvent ErrorLevel ''Account authentication failed''
                       [(''error'', ErrField err)]),
           Some err)
      | None \<Rightarrow>
          (let s = (if hasImmediateTasks then run_on_start_loop (acc_Tasks acc) s else s)
           in if hasScheduledTasks then schedule_loop (parseSchedule ev) (acc_Tasks acc) s
              else (s, None)))"

text \<open>
  The body of the loop over the accounts.  The closure runs in a goroutine of its own
  and its error is dropped.  The state carries \<open>hasAnyScheduled\<close>.
\<close>

definition RunTasks_account ::
  "env \<Rightarrow> Config \<Rightarrow> AccountConfig \<Rightarrow> session \<times> bool \<Rightarrow> session \<times> bool" where
  "RunTasks_account ev cfg acc st =
     (let (s, hasAnyScheduled) = st;
          (hasImmediateTasks, hasScheduledTasks) = scan_tasks (acc_Tasks acc) (False, False)
      in if \<not> hasImmediateTasks \<and> \<not> hasScheduledTasks
         then (log_to s (LogEvent InfoLevel ''No runnable tasks configured, skipping account'' []),
               hasAnyScheduled)
         else
           (case resolveAppConfig cfg acc of
              Inl err \<Rightarrow>
                (log_to s (LogEvent ErrorLevel ''Account configuration incomplete''
                             [(''error'', ErrField err)]),
                 hasAnyScheduled)
            | Inr (appID, appHash) \<Rightarrow>
                (case factoryError ev acc of
                   Some err \<Rightarrow>
                     (log_to s (LogEvent ErrorLevel ''Failed to create client''
                                  [(''error'', ErrField err)]),
                      hasAnyScheduled)
                 | None \<Rightarrow>
                     (let hasAnyScheduled = (if hasScheduledTasks then True else hasAnyScheduled)
                      in case connectError ev acc of
                           Some err \<Rightarrow> (s, hasAnyScheduled)
                         | None \<Rightarrow>
                             (fst (daemon_closure ev acc hasImmediateTasks hasScheduledTasks s),
                              hasAnyScheduled)))))"

text \<open>
  \<open>RunTasks\<close>.  The sessions of the accounts run concurrently; the model takes them in
  the order of the configuration, each up to the point where it waits.  The Go function
  always returns \<open>nil\<close>; the result here is the state reached.
\<close>

fun RunTasks_loop :: "env \<Rightarrow> Config \<Rightarrow> AccountConfig list \<Rightarrow> session \<times> bool \<Rightarrow> session \<times> bool" where
  "RunTasks_loop ev cfg [] st = st"
| "RunTasks_loop ev cfg (acc # rest) st = RunTasks_loop ev cfg rest (RunTasks_account ev cfg acc st)"

definition RunTasks :: "env \<Rightarrow> Config \<Rightarrow> session" where
  "RunTasks ev cfg =
     (let (s, hasAnyScheduled) = RunTasks_loop ev cfg (cfg_Accounts cfg) (session_start, False)
      in if \<not> hasAnyScheduled
         then log_to s (LogEvent InfoLevel ''No scheduled tasks, scheduler not started'' [])
         else log_to (s\<lparr>ses_scheduler := Scheduler_Start (ses_scheduler s)\<rparr>)
                (LogEvent InfoLevel ''Scheduler started'' []))"

subsection \<open>Run-once mode: \<open>runTasksOnce\<close>\<close>

fun count_enabled :: "TaskConfig list \<Rightarrow> nat \<Rightarrow> nat" where
  "count_enabled [] enabledTaskCount = enabledTaskCount"
| "count_enabled (task # rest) enabledTaskCount =
     (if isTaskEnabled task then count_enabled rest (enabledTaskCount + 1)
      else count_enabled rest enabledTaskCount)"

text \<open>The loop that submits every enabled task with \<open>SubmitTaskBlocking\<close>; the second
  component is \<open>taskErrors\<close>.\<close>

fun once_submit_loop ::
  "(TaskConfig \<Rightarrow> bool) \<Rightarrow> TaskConfig list \<Rightarrow> session \<times> error list \<Rightarrow> session \<times> error list" where
  "once_submit_loop submit [] st = st"
| "once_submit_loop submit (task # rest) (s, taskErrors) =
     (if \<not> isTaskEnabled task then once_submit_loop submit rest (s, taskErrors)
      else
        (let s = s\<lparr>ses_submitted := ses_submitted s @ [(task, ''once'')]\<rparr>
         in if \<not> submit task
            then once_submit_loop submit rest (s, taskErrors @ [SubmitFailed (task_Name task)])
            else once_submit_loop submit rest (s, taskErrors)))"

text \<open>The closure of the run-once mode; the \<open>error list\<close> is what it appends to
  \<open>allErrs\<close>, the \<open>error option\<close> what it returns.\<close>

definition once_closure ::
  "env \<Rightarrow> AccountConfig \<Rightarrow> nat \<Rightarrow> session \<Rightarrow> session \<times> error list \<times> error option" where
  "once_closure ev acc enabledTaskCount s =
     (case authError ev acc of
        Some err \<Rightarrow>
          (log_to s (LogEvent ErrorLevel ''Account authentication failed''
                       [(''error'', ErrField err)]),
           [], Some err)
      | None \<Rightarrow>
          (let (s, taskErrors) =
                 once_submit_loop (submitBlockingResult ev acc) (acc_Tasks acc) (s, [])
           in if length taskErrors > 0
              then (log_to s (LogEvent WarnLevel ''Some tasks failed''
                                [(''failed_count'', IntField (int (length taskErrors))),
                                 (''total_count'', IntField (int enabledTaskCount))]),
                    taskErrors, None)
              else (log_to s (LogEvent InfoLevel ''All tasks completed''
                                [(''total_count'', IntField (int enabledTaskCount))]),
                    taskErrors, None)))"

text \<open>
  The loop over the accounts.  The result is the state and the errors the function
  returns joined: \<open>ctx.Err()\<close> alone when the context is found cancelled, else
  \<open>allErrs\<close>.
\<close>

fun runTasksOnce_loop ::
  "env \<Rightarrow> Config \<Rightarrow> AccountConfig list \<Rightarrow> session \<times> error list \<Rightarrow> session \<times> error list" where
  "runTasksOnce_loop ev cfg [] (s, allErrs) = (s, allErrs)"
| "runTasksOnce_loop ev cfg (acc # rest) (s, allErrs) =
     (if ctxDoneBefore ev acc then (s, [ContextCanceled])
      else
        (let enabledTaskCount = count_enabled (acc_Tasks acc) 0
         in if enabledTaskCount = 0
            then runTasksOnce_loop ev cfg rest
                   (log_to s (LogEvent InfoLevel ''No enabled tasks, skipping'' []), allErrs)
            else
              (let s = log_to s (LogEvent InfoLevel ''Starting tasks''
                                   [(''task_count'', IntField (int enabledTaskCount))])
               in case resolveAppConfig cfg acc of
                    Inl err \<Rightarrow>
                      runTasksOnce_loop ev cfg rest
                        (log_to s (LogEvent ErrorLevel ''Account configuration incomplete''
                                     [(''error'', ErrField err)]),
                         allErrs @ [err])
                  | Inr (appID, appHash) \<Rightarrow>
                      (case factoryError ev acc of
                         Some err \<Rightarrow>
                           runTasksOnce_loop ev cfg rest
                             (log_to s (LogEvent ErrorLevel ''Failed to create client''
                                          [(''error'', ErrField err)]),
                              allErrs @ [err])
                       | None \<Rightarrow>
                           (case connectError ev acc of
                              Some err \<Rightarrow> runTasksOnce_loop ev cfg rest (s, allErrs @ [err])
                            | None \<Rightarrow>
                                (case once_closure ev acc enabledTaskCount s of
                                   (s, taskErrors, Some err) \<Rightarrow>
                                     runTasksOnce_loop ev cfg rest
                                       (s, allErrs @ taskErrors @ [err])
                                 | (s, taskErrors, None) \<Rightarrow>
                                     runTasksOnce_loop ev cfg rest
                                       (s, allErrs @ taskErrors)))))))"

definition runTasksOnce :: "env \<Rightarrow> Config \<Rightarrow> session \<times> error list" where
  "runTasksOnce ev cfg = runTasksOnce_loop ev cfg (cfg_Accounts cfg) (session_start, [])"

section \<open>Reference statements and examples\<close>

text \<open>
  Merging by name as the specification words it: every base account in its place,
  merged with the override account of the same trimmed name when there is one (the
  last such account when several share the name), followed by the override accounts
  whose trimmed name no base account has.
\<close>

definition merge_by_name_spec :: "AccountConfig list \<Rightarrow> AccountConfig list \<Rightarrow> AccountConfig list" where
  "merge_by_name_spec base override =
     map (\<lambda>b. case find (\<lambda>ov. TrimSpace (acc_Name ov) = TrimSpace (acc_Name b)) (rev override) of
                 None \<Rightarrow> b
               | Some ov \<Rightarrow> mergeAccount b ov) base
     @ filter (\<lambda>ov. TrimSpace (acc_Name ov) \<notin> set (map (\<lambda>b. TrimSpace (acc_Name b)) base)) override"

text \<open>Two invariants of a run: every scheduled and every submitted task is enabled;
  in the run-once mode, moreover, nothing is scheduled.\<close>

definition all_enabled :: "session \<Rightarrow> bool" where
  "all_enabled s =
     (list_all (\<lambda>e. isTaskEnabled (entry_Task e)) (cron_entries (ses_scheduler s))
      \<and> list_all (\<lambda>p. isTaskEnabled (fst p)) (ses_submitted s))"

definition once_ok :: "session \<Rightarrow> bool" where
  "once_ok s = (cron_entries (ses_scheduler s) = [] \<and> list_all (\<lambda>p. isTaskEnabled (fst p)) (ses_submitted s))"

text \<open>Concrete values for the examples below.\<close>

definition Config_zero :: Config where
  "Config_zero =
     \<lparr>cfg_Accounts = [], cfg_Proxy = [], cfg_AppID = 0, cfg_AppHash = [],
      cfg_ReplyWaitSeconds = 0, cfg_ReplyHistoryLimit = 0,
      cfg_Log = \<lparr>log_Dir = [], log_Level = [], log_Format = []\<rparr>, cfg_Language = []\<rparr>"

definition example_account :: "string \<Rightarrow> string \<Rightarrow> AccountConfig" where
  "example_account name phone = AccountConfig_zero\<lparr>acc_Name := name, acc_Phone := phone\<rparr>"

definition example_task :: "string \<Rightarrow> string \<Rightarrow> string \<Rightarrow> bool option \<Rightarrow> bool \<Rightarrow> TaskConfig" where
  "example_task name method schedule enabled runOnStart =
     \<lparr>task_Name = name, task_Target = ''@checkin_bot'', task_Method = method,
      task_Payload = ''/checkin'', task_Schedule = schedule, task_Enabled = enabled,
      task_RunOnStart = runOnStart, task_ReplyWaitSeconds = 0, task_ReplyHistoryLimit = 0\<rparr>"

text \<open>An account \<open>acme\<close> with credentials of its own and the given tasks, alone in a
  configuration.\<close>

definition acme_config :: "TaskConfig list \<Rightarrow> Config" where
  "acme_config tasks =
     Config_zero\<lparr>cfg_Accounts :=
       [AccountConfig_zero\<lparr>acc_Name := ''acme'', acc_AppID := 12345, acc_AppHash := ''abcdef'',
                           acc_Tasks := tasks\<rparr>]\<rparr>"

text \<open>
  An environment in which every collaborator succeeds and the context is never
  cancelled.  Its parser accepts \<open>0 8 * * *\<close> and \<open>@every 12h\<close>, the two expressions
  of the README, and rejects every other string, among them \<open>not-a-cron\<close>; on these
  three strings it agrees with the parser of the cron library.
\<close>

definition example_env :: env where
  "example_env =
     \<lparr>parseSchedule = (\<lambda>s. s = ''0 8 * * *'' \<or> s = ''@every 12h''),
      factoryError = (\<lambda>acc. None),
      connectError = (\<lambda>acc. None),
      authError = (\<lambda>acc. None),
      ctxDoneBefore = (\<lambda>acc. False),
      submitBlockingResult = (\<lambda>acc task. True)\<rparr>"

text \<open>
  A running executor for the account \<open>acme\<close> with an empty queue of the given
  capacity, as \<open>NewTaskExecutor\<close> returns it for a default worker count.
\<close>

definition example_executor :: "nat \<Rightarrow> TaskExecutor" where
  "example_executor capacity =
     \<lparr>taskQueue = [], queueCap = capacity, queueClosed = False, workerCount = 4,
      cancelled = False, logDir = [], logFormat = ''text'', accountName = ''acme''\<rparr>"

text \<open>A client that answers every call with \<open>nil\<close> and counts the calls.\<close>

definition counting_client :: "nat taskClient" where
  "counting_client n call = (None, n + 1)"

definition no_task_log_error :: "string \<Rightarrow> string \<Rightarrow> string \<Rightarrow> string \<Rightarrow> string \<Rightarrow> error option" where
  "no_task_log_error dir account task trigger format = None"

section \<open>Properties of reply-policy resolution\<close>

text \<open>
  Claim C1.  For every global config, account config and task config,
  \<open>resolveReplyConfig\<close> returns, for the wait-seconds field and for the history-limit
  field independently, the task-level value when it is positive, else the
  account-level value when it is positive, else the global value when it is positive,
  else the fixed default: 3 for the wait and 10 for the history limit.
\<close>

theorem resolveReplyConfig_override_chain:
  "resolveReplyConfig cfg acc task =
     (if task_ReplyWaitSeconds task > 0 then task_ReplyWaitSeconds task
      else if acc_ReplyWaitSeconds acc > 0 then acc_ReplyWaitSeconds acc
      else if cfg_ReplyWaitSeconds cfg > 0 then cfg_ReplyWaitSeconds cfg
      else 3,
      if task_ReplyHistoryLimit task > 0 then task_ReplyHistoryLimit task
      else if acc_ReplyHistoryLimit acc > 0 then acc_ReplyHistoryLimit acc
      else if cfg_ReplyHistoryLimit cfg > 0 then cfg_ReplyHistoryLimit cfg
      else 10)"
  by (simp add: resolveReplyConfig_def Let_def)

section \<open>Properties of configuration merging\<close>

text \<open>
  Claim C9.  Task-level merge is monotone in the run-on-start flag: for every base and
  override task, if the base task's \<open>RunOnStart\<close> is true then so is the merged task's.
  An override can set the flag but cannot clear it.
\<close>

theorem mergeTask_RunOnStart_monotone:
  "task_RunOnStart base \<Longrightarrow> task_RunOnStart (mergeTask base override)"
  by (simp add: mergeTask_def Let_def)

theorem mergeTask_RunOnStart_monotone_witness:
  "task_RunOnStart (TaskConfig_zero\<lparr>task_RunOnStart := True\<rparr>)
   \<and> task_RunOnStart (mergeTask (TaskConfig_zero\<lparr>task_RunOnStart := True\<rparr>) TaskConfig_zero)"
  using mergeTask_RunOnStart_monotone
          [of "TaskConfig_zero\<lparr>task_RunOnStart := True\<rparr>" TaskConfig_zero]
  by simp

text \<open>
  Claim C10.  A nil argument is an identity for config merging: for every config
  pointer \<open>c\<close>, \<open>MergeConfig(nil, c)\<close> returns \<open>c\<close> and \<open>MergeConfig(c, nil)\<close> returns
  \<open>c\<close>, and neither call returns an error.
\<close>

theorem MergeConfig_nil_identity:
  "MergeConfig None c = Inr c \<and> MergeConfig c None = Inr c"
  by (simp add: MergeConfig_def split: option.split)

subsection \<open>Account lists\<close>

lemma find_app:
  "find P (xs @ ys) = (case find P xs of None \<Rightarrow> find P ys | Some x \<Rightarrow> Some x)"
  by (induction xs) auto

lemma find_None_set: "find P xs = None \<longleftrightarrow> (\<forall>x \<in> set xs. \<not> P x)"
  by (induction xs) auto

lemma overrideIndex_loop_lookup:
  "overrideIndex_loop xs m k =
     (case find (\<lambda>ov. TrimSpace (acc_Name ov) = k) (rev xs) of Some ov \<Rightarrow> Some ov | None \<Rightarrow> m k)"
  by (induction xs arbitrary: m) (auto simp: find_app split: option.splits)

lemma byName_base_loop_eq:
  "byName_base_loop idx base (merged, seen) =
     (merged @ map (\<lambda>b. case idx (TrimSpace (acc_Name b)) of
                           Some ov \<Rightarrow> mergeAccount b ov | None \<Rightarrow> b) base,
      seen \<union> {k. \<exists>b \<in> set base. k = TrimSpace (acc_Name b) \<and> idx k \<noteq> None})"
  by (induction base arbitrary: merged seen) (auto simp: Let_def split: option.splits)

lemma byName_override_loop_eq:
  "byName_override_loop seen xs merged =
     merged @ filter (\<lambda>ov. TrimSpace (acc_Name ov) \<notin> seen) xs"
  by (induction xs arbitrary: merged) (auto simp: Let_def)

lemma mergeAccountsByIndex_loop_eq:
  "i \<le> n \<Longrightarrow> mergeAccountsByIndex_loop i n base override merged =
     merged @ map (\<lambda>j. if j < length base \<and> j < length override
                         then mergeAccount (base ! j) (override ! j)
                         else if j < length base then base ! j
                         else if j < length override then override ! j
                         else AccountConfig_zero) [i..<n]"
proof (induction i n base override merged rule: mergeAccountsByIndex_loop.induct)
  case (1 i maxLen base override merged)
  show ?case
  proof (cases "i < maxLen")
    case True
    then show ?thesis
      using "1.IH" [OF True refl refl refl refl]
      by (subst mergeAccountsByIndex_loop.simps) (auto simp: Let_def upt_conv_Cons)
  next
    case False
    with "1.prems" show ?thesis
      by (subst mergeAccountsByIndex_loop.simps) simp
  qed
qed

lemma mergeAccountsByIndex_same_length:
  "length base = length override \<Longrightarrow>
     mergeAccountsByIndex base override = map2 mergeAccount base override"
  by (auto simp: mergeAccountsByIndex_def mergeAccountsByIndex_loop_eq Let_def
      intro!: nth_equalityI)

lemma allAccountsNamed_loop_eq:
  "allAccountsNamed_loop xs = list_all (\<lambda>acc. TrimSpace (acc_Name acc) \<noteq> []) xs"
  by (induction xs) auto

lemma mergeAccountsByName_eq_spec:
  "mergeAccountsByName base override = merge_by_name_spec base override"
proof -
  let ?key = "\<lambda>a. TrimSpace (acc_Name a)"
  let ?idx = "overrideIndex_loop override Map.empty"
  have idx: "?idx k = find (\<lambda>ov. ?key ov = k) (rev override)" for k
    by (simp add: overrideIndex_loop_lookup split: option.splits)
  have seen: "ov \<in> set override \<Longrightarrow>
        ?key ov \<in> {k. \<exists>b \<in> set base. k = ?key b \<and> ?idx k \<noteq> None}
        \<longleftrightarrow> ?key ov \<in> set (map ?key base)" for ov
    by (auto simp: idx find_None_set)
  have "filter (\<lambda>ov. ?key ov \<notin> {k. \<exists>b \<in> set base. k = ?key b \<and> ?idx k \<noteq> None}) override
        = filter (\<lambda>ov. ?key ov \<notin> set (map ?key base)) override"
    by (rule filter_cong [OF refl]) (use seen in blast)
  then show ?thesis
    by (simp add: mergeAccountsByName_def merge_by_name_spec_def byName_base_loop_eq
        byName_override_loop_eq idx del: set_map)
qed

text \<open>
  Claim C3, as the code has it.  For every pair of account lists with a non-empty
  override: if both lists are non-empty and every account of both has a non-blank name,
  the merge is by name, keeping the order of the base list and appending the
  override-only accounts at the end; otherwise the merge is positional and fails with
  the length-mismatch error exactly when the two lengths differ.  (An empty base list
  never merges by name: \<open>allAccountsNamed\<close> is false for it.)
\<close>

theorem mergeAccounts_by_name_or_index:
  assumes "override \<noteq> []"
  shows "mergeAccounts base override =
          (if base \<noteq> [] \<and> list_all (\<lambda>acc. TrimSpace (acc_Name acc) \<noteq> []) (base @ override)
           then Inr (merge_by_name_spec base override)
           else if length base \<noteq> length override
           then Inl (AccountsLengthMismatch (length base) (length override))
           else Inr (map2 mergeAccount base override))"
  using assms
  by (auto simp: mergeAccounts_def allAccountsNamed_def allAccountsNamed_loop_eq
      mergeAccountsByName_eq_spec mergeAccountsByIndex_same_length)

text \<open>
  An instance of each branch: base \<open>a, b\<close> merged by name with override \<open>b, c\<close>, and
  a base account with an empty name against two override accounts.
\<close>

theorem mergeAccounts_by_name_or_index_witness:
  "[example_account '' b '' ''3'', example_account ''c'' ''4''] \<noteq> []
   \<and> mergeAccounts [example_account ''a'' ''1'', example_account ''b'' ''2'']
        [example_account '' b '' ''3'', example_account ''c'' ''4'']
      = Inr [example_account ''a'' ''1'', example_account '' b '' ''3'', example_account ''c'' ''4'']
   \<and> mergeAccounts [example_account '''' ''1'']
        [example_account '' b '' ''3'', example_account ''c'' ''4'']
      = Inl (AccountsLengthMismatch 1 2)"
proof -
  let ?base = "[example_account ''a'' ''1'', example_account ''b'' ''2'']"
  let ?ov = "[example_account '' b '' ''3'', example_account ''c'' ''4'']"
  have h: "?ov \<noteq> []" by simp
  have c: "?base \<noteq> [] \<and> list_all (\<lambda>acc. TrimSpace (acc_Name acc) \<noteq> []) (?base @ ?ov)"
    by code_simp
  have r: "merge_by_name_spec ?base ?ov
      = [example_account ''a'' ''1'', example_account '' b '' ''3'', example_account ''c'' ''4'']"
    by code_simp
  have c2: "\<not> ([example_account '''' ''1''] \<noteq> []
       \<and> list_all (\<lambda>acc. TrimSpace (acc_Name acc) \<noteq> []) ([example_account '''' ''1''] @ ?ov))"
    by code_simp
  have a: "mergeAccounts ?base ?ov = Inr (merge_by_name_spec ?base ?ov)"
    by (subst mergeAccounts_by_name_or_index [OF h]) (rule if_P [OF c])
  have b: "mergeAccounts [example_account '''' ''1''] ?ov = Inl (AccountsLengthMismatch 1 2)"
    by (subst mergeAccounts_by_name_or_index [OF h], subst if_not_P [OF c2]) simp
  from h a b r show ?thesis by simp
qed

text \<open>
  Claim C3 as stated fails for an empty base list.  Every account of both lists has a
  non-blank name (the base list has none), yet the merge is not by name: it is refused
  with the length-mismatch error.
\<close>

theorem mergeAccounts_empty_base_counterexample:
  "[example_account ''a'' ''1''] \<noteq> []
   \<and> list_all (\<lambda>acc. TrimSpace (acc_Name acc) \<noteq> []) ([] @ [example_account ''a'' ''1''])
   \<and> mergeAccounts [] [example_account ''a'' ''1''] = Inl (AccountsLengthMismatch 0 1)
   \<and> mergeAccounts [] [example_account ''a'' ''1''] \<noteq> Inr (merge_by_name_spec [] [example_account ''a'' ''1''])"
  by code_simp

subsection \<open>Scalar fields\<close>

text \<open>
  Claim C5, as the code has it.  The merge is sparse for a fixed list of fields: for
  \<open>Proxy\<close>, \<open>AppID\<close> and \<open>AppHash\<close> of the configuration, for \<open>Name\<close>, \<open>Phone\<close>,
  \<open>Password\<close>, \<open>AppID\<close> and \<open>AppHash\<close> of an account and for \<open>Target\<close>,
  \<open>Method\<close>, \<open>Payload\<close>, \<open>Schedule\<close>, \<open>Enabled\<close> and \<open>RunOnStart\<close> of a task, the
  override's value wins if and only if it is non-empty, non-zero, non-nil or true, and
  the base value is kept otherwise.  Every other scalar field keeps the base value
  whatever the override holds: the reply policy, the log settings and the language of
  the configuration; the worker count, the queue size and the reply policy of an
  account; the name and the reply policy of a task.
\<close>

theorem merge_sparse_override_fields:
  assumes "MergeConfig (Some b) (Some ov) = Inr (Some m)"
  shows "cfg_Proxy m = (if cfg_Proxy ov \<noteq> [] then cfg_Proxy ov else cfg_Proxy b)
     \<and> cfg_AppID m = (if cfg_AppID ov \<noteq> 0 then cfg_AppID ov else cfg_AppID b)
     \<and> cfg_AppHash m = (if cfg_AppHash ov \<noteq> [] then cfg_AppHash ov else cfg_AppHash b)
     \<and> cfg_ReplyWaitSeconds m = cfg_ReplyWaitSeconds b
     \<and> cfg_ReplyHistoryLimit m = cfg_ReplyHistoryLimit b
     \<and> cfg_Log m = cfg_Log b
     \<and> cfg_Language m = cfg_Language b
     \<and> mergeAccount ba oa =
         \<lparr>acc_Name = (if acc_Name oa \<noteq> [] then acc_Name oa else acc_Name ba),
          acc_Phone = (if acc_Phone oa \<noteq> [] then acc_Phone oa else acc_Phone ba),
          acc_Password = (if acc_Password oa \<noteq> [] then acc_Password oa else acc_Password ba),
          acc_AppID = (if acc_AppID oa \<noteq> 0 then acc_AppID oa else acc_AppID ba),
          acc_AppHash = (if acc_AppHash oa \<noteq> [] then acc_AppHash oa else acc_AppHash ba),
          acc_WorkerCount = acc_WorkerCount ba,
          acc_TaskQueueSize = acc_TaskQueueSize ba,
          acc_ReplyWaitSeconds = acc_ReplyWaitSeconds ba,
          acc_ReplyHistoryLimit = acc_ReplyHistoryLimit ba,
          acc_Tasks = (if acc_Tasks oa \<noteq> [] then mergeTasks (acc_Tasks ba) (acc_Tasks oa)
                       else acc_Tasks ba)\<rparr>
     \<and> mergeTask bt ot =
         \<lparr>task_Name = task_Name bt,
          task_Target = (if task_Target ot \<noteq> [] then task_Target ot else task_Target bt),
          task_Method = (if task_Method ot \<noteq> [] then task_Method ot else task_Method bt),
          task_Payload = (if task_Payload ot \<noteq> [] then task_Payload ot else task_Payload bt),
          task_Schedule = (if task_Schedule ot \<noteq> [] then task_Schedule ot else task_Schedule bt),
          task_Enabled = (if task_Enabled ot \<noteq> None then task_Enabled ot else task_Enabled bt),
          task_RunOnStart = (if task_RunOnStart ot then task_RunOnStart ot else task_RunOnStart bt),
          task_ReplyWaitSeconds = task_ReplyWaitSeconds bt,
          task_ReplyHistoryLimit = task_ReplyHistoryLimit bt\<rparr>"
proof -
  have cfg: "cfg_Proxy m = (if cfg_Proxy ov \<noteq> [] then cfg_Proxy ov else cfg_Proxy b)
     \<and> cfg_AppID m = (if cfg_AppID ov \<noteq> 0 then cfg_AppID ov else cfg_AppID b)
     \<and> cfg_AppHash m = (if cfg_AppHash ov \<noteq> [] then cfg_AppHash ov else cfg_AppHash b)
     \<and> cfg_ReplyWaitSeconds m = cfg_ReplyWaitSeconds b
     \<and> cfg_ReplyHistoryLimit m = cfg_ReplyHistoryLimit b
     \<and> cfg_Log m = cfg_Log b
     \<and> cfg_Language m = cfg_Language b"
    using assms
    by (auto simp: MergeConfig_def Let_def split: if_splits sum.splits)
  have acc: "mergeAccount ba oa =
         \<lparr>acc_Name = (if acc_Name oa \<noteq> [] then acc_Name oa else acc_Name ba),
          acc_Phone = (if acc_Phone oa \<noteq> [] then acc_Phone oa else acc_Phone ba),
          acc_Password = (if acc_Password oa \<noteq> [] then acc_Password oa else acc_Password ba),
          acc_AppID = (if acc_AppID oa \<noteq> 0 then acc_AppID oa else acc_AppID ba),
          acc_AppHash = (if acc_AppHash oa \<noteq> [] then acc_AppHash oa else acc_AppHash ba),
          acc_WorkerCount = acc_WorkerCount ba,
          acc_TaskQueueSize = acc_TaskQueueSize ba,
          acc_ReplyWaitSeconds = acc_ReplyWaitSeconds ba,
          acc_ReplyHistoryLimit = acc_ReplyHistoryLimit ba,
          acc_Tasks = (if acc_Tasks oa \<noteq> [] then mergeTasks (acc_Tasks ba) (acc_Tasks oa)
                       else acc_Tasks ba)\<rparr>"
    by (simp add: mergeAccount_def Let_def)
  have task: "mergeTask bt ot =
         \<lparr>task_Name = task_Name bt,
          task_Target = (if task_Target ot \<noteq> [] then task_Target ot else task_Target bt),
          task_Method = (if task_Method ot \<noteq> [] then task_Method ot else task_Method bt),
          task_Payload = (if task_Payload ot \<noteq> [] then task_Payload ot else task_Payload bt),
          task_Schedule = (if task_Schedule ot \<noteq> [] then task_Schedule ot else task_Schedule bt),
          task_Enabled = (if task_Enabled ot \<noteq> None then task_Enabled ot else task_Enabled bt),
          task_RunOnStart = (if task_RunOnStart ot then task_RunOnStart ot else task_RunOnStart bt),
          task_ReplyWaitSeconds = task_ReplyWaitSeconds bt,
          task_ReplyHistoryLimit = task_ReplyHistoryLimit bt\<rparr>"
    by (simp add: mergeTask_def Let_def)
  from cfg acc task show ?thesis by (simp only:) 
qed

text \<open>An instance: a base with a proxy and a language, an override with an application
  id and another language.\<close>

theorem merge_sparse_override_fields_witness:
  "MergeConfig (Some (Config_zero\<lparr>cfg_Proxy := ''socks5://127.0.0.1:1080'', cfg_Language := ''en''\<rparr>))
               (Some (Config_zero\<lparr>cfg_AppID := 7, cfg_Language := ''zh''\<rparr>))
     = Inr (Some (Config_zero\<lparr>cfg_Proxy := ''socks5://127.0.0.1:1080'', cfg_AppID := 7,
                               cfg_Language := ''en''\<rparr>))
   \<and> cfg_Proxy (Config_zero\<lparr>cfg_Proxy := ''socks5://127.0.0.1:1080'', cfg_AppID := 7,
                               cfg_Language := ''en''\<rparr>) = ''socks5://127.0.0.1:1080''
   \<and> cfg_AppID (Config_zero\<lparr>cfg_Proxy := ''socks5://127.0.0.1:1080'', cfg_AppID := 7,
                               cfg_Language := ''en''\<rparr>) = 7
   \<and> cfg_Language (Config_zero\<lparr>cfg_Proxy := ''socks5://127.0.0.1:1080'', cfg_AppID := 7,
                               cfg_Language := ''en''\<rparr>) = ''en''"
proof -
  let ?b = "Config_zero\<lparr>cfg_Proxy := ''socks5://127.0.0.1:1080'', cfg_Language := ''en''\<rparr>"
  let ?ov = "Config_zero\<lparr>cfg_AppID := 7, cfg_Language := ''zh''\<rparr>"
  let ?m = "Config_zero\<lparr>cfg_Proxy := ''socks5://127.0.0.1:1080'', cfg_AppID := 7,
                               cfg_Language := ''en''\<rparr>"
  have h: "MergeConfig (Some ?b) (Some ?ov) = Inr (Some ?m)"
    by (simp add: MergeConfig_def Config_zero_def)
  from merge_sparse_override_fields [OF h] h show ?thesis
    by (simp add: Config_zero_def)
qed

text \<open>
  Claim C5 as stated fails for the fields outside that list: a non-zero reply wait of
  an override task, a non-zero worker count of an override account and a non-empty
  language of an override configuration are all dropped by the merge.
\<close>

theorem merge_not_sparse_for_all_fields_counterexample:
  "task_ReplyWaitSeconds (TaskConfig_zero\<lparr>task_ReplyWaitSeconds := 5\<rparr>) \<noteq> 0
   \<and> task_ReplyWaitSeconds
        (mergeTask TaskConfig_zero (TaskConfig_zero\<lparr>task_ReplyWaitSeconds := 5\<rparr>)) = 0
   \<and> acc_WorkerCount (AccountConfig_zero\<lparr>acc_WorkerCount := 8\<rparr>) \<noteq> 0
   \<and> acc_WorkerCount
        (mergeAccount AccountConfig_zero (AccountConfig_zero\<lparr>acc_WorkerCount := 8\<rparr>)) = 0
   \<and> cfg_Language (Config_zero\<lparr>cfg_Language := ''zh''\<rparr>) \<noteq> []
   \<and> MergeConfig (Some Config_zero) (Some (Config_zero\<lparr>cfg_Language := ''zh''\<rparr>))
        = Inr (Some Config_zero)"
  by (simp add: mergeTask_def mergeAccount_def MergeConfig_def TaskConfig_zero_def
      AccountConfig_zero_def Config_zero_def)

section \<open>Properties of the executor\<close>

lemma NewTaskExecutor_beyond_limit:
  "int chanCapLimit < (if q \<le> 0 then 100 else q) \<Longrightarrow>
   NewTaskExecutor chanCapLimit w q d f a = Panics MakechanSizeOutOfRange"
  by (simp add: NewTaskExecutor_def Let_def)

text \<open>
  Claim C7, as the code has it.  For every worker-count argument and every queue-size
  argument whose effective value (100 for a non-positive one) is within the largest
  channel capacity the runtime accepts, the construction of an executor succeeds and
  yields a worker count of at least one and a queue capacity of at least one: a
  non-positive worker count is replaced by 4 and a non-positive queue size by 100, and
  such arguments are never rejected.
\<close>

theorem NewTaskExecutor_defaults:
  assumes "(if q \<le> 0 then 100 else q) \<le> int chanCapLimit"
  shows "\<exists>e. NewTaskExecutor chanCapLimit w q d f a = Returns e
     \<and> workerCount e = (if w \<le> 0 then 4 else w)
     \<and> int (queueCap e) = (if q \<le> 0 then 100 else q)
     \<and> 1 \<le> workerCount e
     \<and> 1 \<le> queueCap e
     \<and> taskQueue e = []
     \<and> \<not> queueClosed e"
  using assms by (auto simp: NewTaskExecutor_def Let_def)

text \<open>
  An instance, the scenario of the specification: worker count 0 and queue size 0 give
  four workers and a queue of a hundred slots.  The limit taken here is \<open>2 ^ 48\<close>, the
  allocation limit in bytes of the 64-bit platforms, which no capacity limit exceeds.
\<close>

theorem NewTaskExecutor_defaults_witness:
  "(if (0::int) \<le> 0 then 100 else 0) \<le> int (2 ^ 48)
   \<and> (\<exists>e. NewTaskExecutor (2 ^ 48) 0 0 [] [] ''acme'' = Returns e
          \<and> workerCount e = 4 \<and> queueCap e = 100 \<and> taskQueue e = [] \<and> \<not> queueClosed e)"
proof -
  have h: "(if (0::int) \<le> 0 then 100 else 0) \<le> int (2 ^ 48)" by simp
  from NewTaskExecutor_defaults [OF h, of 0 "[]" "[]" "''acme''"] h
  show ?thesis by auto
qed

text \<open>
  Claim C7 as stated fails for a large queue size: the largest value of a Go \<open>int\<close>,
  \<open>2 ^ 63 - 1\<close>, is positive, so it is not replaced, and it is beyond the capacity
  limit, so the construction panics instead of returning an executor.
\<close>

theorem NewTaskExecutor_large_queue_counterexample:
  "NewTaskExecutor (2 ^ 48) 4 (2 ^ 63 - 1) [] [] ''acme'' = Panics MakechanSizeOutOfRange"
  by (simp add: NewTaskExecutor_def)







lemma executeTaskWithLogger_unknown:
  "task_Method task \<noteq> ''message'' \<Longrightarrow> task_Method task \<noteq> ''button'' \<Longrightarrow>
   executeTaskWithLogger client c task = (Some (UnknownMethod (task_Method task)), c)"
  by (simp add: executeTaskWithLogger_def)

text \<open>
  Claim C8.  For every task whose method is neither \<open>message\<close> nor \<open>button\<close>, the
  dispatch fails with an error that carries the offending method value and does not
  call the client.  The failure stays within that one execution: it is logged as a
  failure event, the client state is untouched, and the worker goes on to receive the
  rest of the queue exactly as it would have without that request.
\<close>

theorem unknown_method_fails_alone:
  assumes "task_Method (req_Task req) \<noteq> ''message''" and "task_Method (req_Task req) \<noteq> ''button''"
  shows "executeTaskWithLogger client c (req_Task req)
           = (Some (UnknownMethod (task_Method (req_Task req))), c)
     \<and> snd (TaskExecutor_executeTask mk client e (req\<lparr>req_WorkerID := wid\<rparr>) c) = c
     \<and> (\<exists>fields. (RequestLog, LogEvent ErrorLevel (failure_msg (req_TriggerType req))
                      ((''error'', ErrField (UnknownMethod (task_Method (req_Task req)))) # fields))
            \<in> set (fst (TaskExecutor_executeTask mk client e (req\<lparr>req_WorkerID := wid\<rparr>) c)))
     \<and> worker_loop mk client wid (QueueRecv # rest) (e\<lparr>taskQueue := req # queue\<rparr>, c)
         = (case worker_loop mk client wid rest (e\<lparr>taskQueue := queue\<rparr>, c) of
              (evs', st, exited) \<Rightarrow>
                (fst (TaskExecutor_executeTask mk client (e\<lparr>taskQueue := req # queue\<rparr>)
                        (req\<lparr>req_WorkerID := wid\<rparr>) c) @ evs', st, exited))"
proof -
  have u: "executeTaskWithLogger client c (req_Task req)
           = (Some (UnknownMethod (task_Method (req_Task req))), c)"
    using assms by (rule executeTaskWithLogger_unknown)
  have s: "snd (TaskExecutor_executeTask mk client e' (req\<lparr>req_WorkerID := wid\<rparr>) c) = c" for e'
    using u by (simp add: TaskExecutor_executeTask_def Let_def split: option.splits prod.splits)
  have f: "\<exists>fields. (RequestLog, LogEvent ErrorLevel (failure_msg (req_TriggerType req))
                      ((''error'', ErrField (UnknownMethod (task_Method (req_Task req)))) # fields))
            \<in> set (fst (TaskExecutor_executeTask mk client e (req\<lparr>req_WorkerID := wid\<rparr>) c))"
    using u by (simp add: TaskExecutor_executeTask_def Let_def split: option.splits prod.splits)
  have w: "worker_loop mk client wid (QueueRecv # rest) (e\<lparr>taskQueue := req # queue\<rparr>, c)
         = (case worker_loop mk client wid rest (e\<lparr>taskQueue := queue\<rparr>, c) of
              (evs', st, exited) \<Rightarrow>
                (fst (TaskExecutor_executeTask mk client (e\<lparr>taskQueue := req # queue\<rparr>)
                        (req\<lparr>req_WorkerID := wid\<rparr>) c) @ evs', st, exited))"
  proof -
    obtain evs where eq: "TaskExecutor_executeTask mk client (e\<lparr>taskQueue := req # queue\<rparr>)
                        (req\<lparr>req_WorkerID := wid\<rparr>) c = (evs, c)"
      using s [of "e\<lparr>taskQueue := req # queue\<rparr>"]
      by (cases "TaskExecutor_executeTask mk client (e\<lparr>taskQueue := req # queue\<rparr>)
                        (req\<lparr>req_WorkerID := wid\<rparr>) c") auto
    show ?thesis
      by (simp add: eq split: prod.splits)
  qed
  from u s f w show ?thesis by blast
qed

text \<open>An instance: a worker receives a request with the method \<open>unknown\<close> and then a
  \<open>message\<close> request, which it executes with one call of the client.\<close>

theorem unknown_method_fails_alone_witness:
  "task_Method (example_task ''t9'' ''unknown'' [] None True) \<noteq> ''message''
   \<and> task_Method (example_task ''t9'' ''unknown'' [] None True) \<noteq> ''button''
   \<and> executeTaskWithLogger counting_client (0::nat) (example_task ''t9'' ''unknown'' [] None True)
       = (Some (UnknownMethod ''unknown''), 0)
   \<and> fst (snd (worker_loop no_task_log_error counting_client 3 [QueueRecv, QueueRecv]
        ((example_executor 5)
           \<lparr>taskQueue :=
              [\<lparr>req_Task = example_task ''t9'' ''unknown'' [] None True,
                req_TriggerType = ''scheduled'', req_WorkerID = 0\<rparr>,
               \<lparr>req_Task = example_task ''t1'' ''message'' [] None True,
                req_TriggerType = ''scheduled'', req_WorkerID = 0\<rparr>]\<rparr>, 0)))
       = ((example_executor 5)\<lparr>taskQueue := []\<rparr>, 1)"
proof -
  let ?t = "example_task ''t9'' ''unknown'' [] None True"
  let ?req = "\<lparr>req_Task = ?t, req_TriggerType = ''scheduled'', req_WorkerID = 0\<rparr>"
  let ?req2 = "\<lparr>req_Task = example_task ''t1'' ''message'' [] None True,
                req_TriggerType = ''scheduled'', req_WorkerID = 0\<rparr>"
  have m: "task_Method (req_Task ?req) \<noteq> ''message''" and b: "task_Method (req_Task ?req) \<noteq> ''button''"
    by (simp_all add: example_task_def)
  have rest: "worker_loop no_task_log_error counting_client 3 [QueueRecv]
                ((example_executor 5)\<lparr>taskQueue := [?req2]\<rparr>, 0::nat)
              = (fst (TaskExecutor_executeTask no_task_log_error counting_client
                        ((example_executor 5)\<lparr>taskQueue := [?req2]\<rparr>)
                        (?req2\<lparr>req_WorkerID := 3\<rparr>) 0),
                 ((example_executor 5)\<lparr>taskQueue := []\<rparr>, 1), False)"
    by (simp add: TaskExecutor_executeTask_def executeTaskWithLogger_def counting_client_def
        no_task_log_error_def example_task_def Let_def)
  note th = unknown_method_fails_alone
         [OF m b, where client = counting_client and c = "0::nat" and mk = no_task_log_error
            and e = "example_executor 5" and wid = 3 and rest = "[QueueRecv]"
            and queue = "[?req2]"]
  have tm: "task_Method ?t = ''unknown''" by (simp add: example_task_def)
  from th have u: "executeTaskWithLogger counting_client (0::nat) ?t
                    = (Some (UnknownMethod ''unknown''), 0)"
    by (simp add: tm del: worker_loop.simps)
  from th have w: "worker_loop no_task_log_error counting_client 3 [QueueRecv, QueueRecv]
                ((example_executor 5)\<lparr>taskQueue := [?req, ?req2]\<rparr>, 0::nat)
         = (case worker_loop no_task_log_error counting_client 3 [QueueRecv]
                   ((example_executor 5)\<lparr>taskQueue := [?req2]\<rparr>, 0) of
              (evs', st, exited) \<Rightarrow>
                (fst (TaskExecutor_executeTask no_task_log_error counting_client
                        ((example_executor 5)\<lparr>taskQueue := [?req, ?req2]\<rparr>)
                        (?req\<lparr>req_WorkerID := 3\<rparr>) 0) @ evs', st, exited))"
    by blast
  have fin: "fst (snd (worker_loop no_task_log_error counting_client 3 [QueueRecv, QueueRecv]
                ((example_executor 5)\<lparr>taskQueue := [?req, ?req2]\<rparr>, 0::nat)))
             = ((example_executor 5)\<lparr>taskQueue := []\<rparr>, 1)"
    unfolding w rest by simp
  from m b u fin show ?thesis
    by (simp del: worker_loop.simps)
qed

section \<open>Properties of the run modes\<close>

lemma all_enabled_log_to [simp]: "all_enabled (log_to s ev) = all_enabled s"
  by (simp add: all_enabled_def log_to_def)

lemma all_enabled_start [simp]: "all_enabled session_start"
  by (simp add: all_enabled_def session_start_def NewScheduler_def)

lemma run_on_start_loop_enabled:
  "all_enabled s \<Longrightarrow> all_enabled (run_on_start_loop tasks s)"
  by (induction tasks arbitrary: s) (auto simp: all_enabled_def)

lemma schedule_loop_enabled:
  "all_enabled s \<Longrightarrow> all_enabled (fst (schedule_loop parse tasks s))"
proof (induction tasks arbitrary: s)
  case Nil
  then show ?case by simp
next
  case (Cons task rest)
  show ?case
  proof (cases "\<not> isTaskEnabled task \<or> task_Schedule task = []")
    case True
    then show ?thesis using Cons by auto
  next
    case False
    show ?thesis
    proof (cases "parse (task_Schedule task)")
      case True
      let ?s' = "log_to (s\<lparr>ses_scheduler := (ses_scheduler s)\<lparr>cron_entries := cron_entries (ses_scheduler s) @
                 [\<lparr>entry_Schedule = task_Schedule task, entry_Task = task\<rparr>]\<rparr>\<rparr>)
                     (LogEvent DebugLevel task_added_msg
                        [(''schedule'', StrField (task_Schedule task)),
                         (''task'', StrField (if task_Name task = [] then task_Target task else task_Name task)),
                         (''target'', StrField (task_Target task))])"
      have "all_enabled ?s'"
        using Cons.prems False by (simp add: all_enabled_def log_to_def)
      then have "all_enabled (fst (schedule_loop parse rest ?s'))" by (rule Cons.IH)
      then show ?thesis using False True by (simp add: AddTask_def Let_def)
    next
      case no: False
      then show ?thesis using False Cons.prems by (simp add: AddTask_def Let_def all_enabled_def log_to_def)
    qed
  qed
qed

lemma daemon_closure_enabled:
  "all_enabled s \<Longrightarrow> all_enabled (fst (daemon_closure ev acc i sc s))"
  by (auto simp: daemon_closure_def Let_def intro: run_on_start_loop_enabled schedule_loop_enabled
      split: option.splits)

lemma RunTasks_account_enabled:
  "all_enabled (fst st) \<Longrightarrow> all_enabled (fst (RunTasks_account ev cfg acc st))"
  by (auto simp: RunTasks_account_def Let_def intro: daemon_closure_enabled
      split: option.splits prod.splits sum.splits)

lemma RunTasks_loop_enabled:
  "all_enabled (fst st) \<Longrightarrow> all_enabled (fst (RunTasks_loop ev cfg accs st))"
  by (induction accs arbitrary: st) (simp_all add: RunTasks_account_enabled)

lemma RunTasks_enabled: "all_enabled (RunTasks ev cfg)"
proof -
  have "all_enabled (fst (RunTasks_loop ev cfg (cfg_Accounts cfg) (session_start, False)))"
    by (rule RunTasks_loop_enabled) simp
  then show ?thesis
    by (auto simp: RunTasks_def Let_def all_enabled_def log_to_def Scheduler_Start_def split: prod.splits)
qed
lemma once_ok_log_to [simp]: "once_ok (log_to s ev) = once_ok s"
  by (simp add: once_ok_def log_to_def)

lemma once_submit_loop_ok:
  "once_ok (fst st) \<Longrightarrow> once_ok (fst (once_submit_loop submit tasks st))"
  by (induction submit tasks st rule: once_submit_loop.induct) (auto simp: once_ok_def Let_def)

lemma once_closure_ok:
  "once_ok s \<Longrightarrow> once_ok (fst (once_closure ev acc n s))"
  using once_submit_loop_ok [of "(s, [])" "submitBlockingResult ev acc" "acc_Tasks acc"]
  by (auto simp: once_closure_def Let_def split: option.splits prod.splits)

lemma runTasksOnce_loop_ok:
  "once_ok (fst st) \<Longrightarrow> once_ok (fst (runTasksOnce_loop ev cfg accs st))"
proof (induction ev cfg accs st rule: runTasksOnce_loop.induct)
  case (1 ev cfg s allErrs)
  then show ?case by simp
next
  case (2 ev cfg acc rest s allErrs)
  show ?case
    using "2.prems" once_closure_ok [of "log_to s (LogEvent InfoLevel ''Starting tasks''
                                   [(''task_count'', IntField (int (count_enabled (acc_Tasks acc) 0)))])" ev acc "count_enabled (acc_Tasks acc) 0"]
    by (auto simp: Let_def split: sum.splits option.splits prod.splits intro!: "2.IH")
qed

lemma runTasksOnce_ok: "once_ok (fst (runTasksOnce ev cfg))"
  unfolding runTasksOnce_def
  by (rule runTasksOnce_loop_ok) (simp add: once_ok_def session_start_def NewScheduler_def)

lemma disabled_not_enabled: "task_Enabled t = Some False \<Longrightarrow> \<not> isTaskEnabled t"
  by (simp add: isTaskEnabled_def)

text \<open>
  Claim C6.  For every configuration and every task whose enabled flag is false, the
  task is in no schedule entry and in no submission to an executor, in the daemon mode
  and in the run-once mode (which schedules nothing at all).
\<close>

theorem disabled_task_never_scheduled_nor_submitted:
  assumes "task_Enabled t = Some False"
  shows "t \<notin> entry_Task ` set (cron_entries (ses_scheduler (RunTasks ev cfg)))
     \<and> (t, trig) \<notin> set (ses_submitted (RunTasks ev cfg))
     \<and> cron_entries (ses_scheduler (fst (runTasksOnce ev cfg))) = []
     \<and> (t, trig) \<notin> set (ses_submitted (fst (runTasksOnce ev cfg)))"
  using RunTasks_enabled [of ev cfg] runTasksOnce_ok [of ev cfg] disabled_not_enabled [OF assms]
  by (auto simp: all_enabled_def once_ok_def list_all_iff)

text \<open>An instance: an account with an enabled and a disabled task, both with a
  schedule and the run-on-start flag.  Only the enabled one is scheduled and submitted.\<close>

theorem disabled_task_never_scheduled_nor_submitted_witness:
  "task_Enabled (example_task ''off'' ''message'' ''0 8 * * *'' (Some False) True) = Some False
   \<and> example_task ''off'' ''message'' ''0 8 * * *'' (Some False) True
       \<notin> entry_Task ` set (cron_entries (ses_scheduler (RunTasks example_env
            (acme_config [example_task ''on'' ''message'' ''0 8 * * *'' (Some True) True,
                          example_task ''off'' ''message'' ''0 8 * * *'' (Some False) True]))))
   \<and> (example_task ''off'' ''message'' ''0 8 * * *'' (Some False) True, ''run_on_start'')
       \<notin> set (ses_submitted (RunTasks example_env
            (acme_config [example_task ''on'' ''message'' ''0 8 * * *'' (Some True) True,
                          example_task ''off'' ''message'' ''0 8 * * *'' (Some False) True])))
   \<and> (example_task ''off'' ''message'' ''0 8 * * *'' (Some False) True, ''once'')
       \<notin> set (ses_submitted (fst (runTasksOnce example_env
            (acme_config [example_task ''on'' ''message'' ''0 8 * * *'' (Some True) True,
                          example_task ''off'' ''message'' ''0 8 * * *'' (Some False) True]))))
   \<and> map entry_Task (cron_entries (ses_scheduler (RunTasks example_env
            (acme_config [example_task ''on'' ''message'' ''0 8 * * *'' (Some True) True,
                          example_task ''off'' ''message'' ''0 8 * * *'' (Some False) True]))))
       = [example_task ''on'' ''message'' ''0 8 * * *'' (Some True) True]
   \<and> ses_submitted (RunTasks example_env
            (acme_config [example_task ''on'' ''message'' ''0 8 * * *'' (Some True) True,
                          example_task ''off'' ''message'' ''0 8 * * *'' (Some False) True]))
       = [(example_task ''on'' ''message'' ''0 8 * * *'' (Some True) True, ''run_on_start'')]
   \<and> ses_submitted (fst (runTasksOnce example_env
            (acme_config [example_task ''on'' ''message'' ''0 8 * * *'' (Some True) True,
                          example_task ''off'' ''message'' ''0 8 * * *'' (Some False) True])))
       = [(example_task ''on'' ''message'' ''0 8 * * *'' (Some True) True, ''once'')]"
proof -
  let ?off = "example_task ''off'' ''message'' ''0 8 * * *'' (Some False) True"
  let ?on = "example_task ''on'' ''message'' ''0 8 * * *'' (Some True) True"
  let ?cfg = "acme_config [?on, ?off]"
  have h: "task_Enabled ?off = Some False" by (simp add: example_task_def)
  have e1: "map entry_Task (cron_entries (ses_scheduler (RunTasks example_env ?cfg))) = [?on]"
    by code_simp
  have e2: "ses_submitted (RunTasks example_env ?cfg) = [(?on, ''run_on_start'')]"
    by code_simp
  have e3: "ses_submitted (fst (runTasksOnce example_env ?cfg)) = [(?on, ''once'')]"
    by code_simp
  from disabled_task_never_scheduled_nor_submitted
         [OF h, where ev = example_env and cfg = ?cfg and trig = "''run_on_start''"]
       disabled_task_never_scheduled_nor_submitted
         [OF h, where ev = example_env and cfg = ?cfg and trig = "''once''"]
  show ?thesis using h e1 e2 e3 by blast
qed

lemma schedule_loop_all_parse:
  "list_all (\<lambda>t. isTaskEnabled t \<and> task_Schedule t \<noteq> [] \<longrightarrow> parse (task_Schedule t)) pre \<Longrightarrow>
   schedule_loop parse (pre @ rest) s =
     schedule_loop parse rest (fst (schedule_loop parse pre s))
   \<and> snd (schedule_loop parse pre s) = None
   \<and> cron_entries (ses_scheduler (fst (schedule_loop parse pre s))) =
       cron_entries (ses_scheduler s) @
       map (\<lambda>t. \<lparr>entry_Schedule = task_Schedule t, entry_Task = t\<rparr>)
         (filter (\<lambda>t. isTaskEnabled t \<and> task_Schedule t \<noteq> []) pre)
   \<and> ses_submitted (fst (schedule_loop parse pre s)) = ses_submitted s"
  by (induction pre arbitrary: s) (auto simp: AddTask_def Let_def log_to_def)

text \<open>
  Claim C2, as the code has it.  When the registration loop of an account meets a
  malformed schedule expression at an enabled task, the failure is logged and the loop
  returns that error: the entries of the enabled scheduled tasks before it stay
  registered, and no task after it is registered.
\<close>

theorem schedule_loop_stops_at_first_malformed:
  assumes "list_all (\<lambda>t. isTaskEnabled t \<and> task_Schedule t \<noteq> [] \<longrightarrow> parse (task_Schedule t)) pre"
    and "isTaskEnabled bad" and "task_Schedule bad \<noteq> []" and "\<not> parse (task_Schedule bad)"
  shows "snd (schedule_loop parse (pre @ bad # post) s) = Some (ScheduleParseError (task_Schedule bad))
     \<and> cron_entries (ses_scheduler (fst (schedule_loop parse (pre @ bad # post) s))) =
         cron_entries (ses_scheduler s) @
         map (\<lambda>t. \<lparr>entry_Schedule = task_Schedule t, entry_Task = t\<rparr>)
           (filter (\<lambda>t. isTaskEnabled t \<and> task_Schedule t \<noteq> []) pre)
     \<and> last (ses_log (fst (schedule_loop parse (pre @ bad # post) s))) =
         LogEvent ErrorLevel ''Failed to add scheduled task''
           [(''error'', ErrField (ScheduleParseError (task_Schedule bad))),
            (''schedule'', StrField (task_Schedule bad))]"
proof -
  let ?s' = "fst (schedule_loop parse pre s)"
  have a: "schedule_loop parse (pre @ bad # post) s = schedule_loop parse (bad # post) ?s'"
    and b: "cron_entries (ses_scheduler ?s') =
       cron_entries (ses_scheduler s) @
       map (\<lambda>t. \<lparr>entry_Schedule = task_Schedule t, entry_Task = t\<rparr>)
         (filter (\<lambda>t. isTaskEnabled t \<and> task_Schedule t \<noteq> []) pre)"
    using schedule_loop_all_parse [OF assms(1), of "bad # post" s] by simp_all
  have c: "schedule_loop parse (bad # post) ?s' =
      (log_to ?s' (LogEvent ErrorLevel ''Failed to add scheduled task''
           [(''error'', ErrField (ScheduleParseError (task_Schedule bad))),
            (''schedule'', StrField (task_Schedule bad))]),
       Some (ScheduleParseError (task_Schedule bad)))"
    using assms(2-4) by (simp add: AddTask_def Let_def)
  show ?thesis
    unfolding a c using b by (simp add: log_to_def)
qed

text \<open>An instance: of the tasks \<open>t1\<close>, \<open>t2\<close>, \<open>t3\<close>, where \<open>t2\<close> has the expression
  \<open>not-a-cron\<close>, only \<open>t1\<close> is registered.\<close>

theorem schedule_loop_stops_at_first_malformed_witness:
  "isTaskEnabled (example_task ''t2'' ''message'' ''not-a-cron'' (Some True) False)
   \<and> task_Schedule (example_task ''t2'' ''message'' ''not-a-cron'' (Some True) False) \<noteq> []
   \<and> \<not> parseSchedule example_env
        (task_Schedule (example_task ''t2'' ''message'' ''not-a-cron'' (Some True) False))
   \<and> snd (schedule_loop (parseSchedule example_env)
        [example_task ''t1'' ''message'' ''0 8 * * *'' (Some True) False,
         example_task ''t2'' ''message'' ''not-a-cron'' (Some True) False,
         example_task ''t3'' ''message'' ''@every 12h'' (Some True) False] session_start)
      = Some (ScheduleParseError ''not-a-cron'')
   \<and> map entry_Task (cron_entries (ses_scheduler (fst (schedule_loop (parseSchedule example_env)
        [example_task ''t1'' ''message'' ''0 8 * * *'' (Some True) False,
         example_task ''t2'' ''message'' ''not-a-cron'' (Some True) False,
         example_task ''t3'' ''message'' ''@every 12h'' (Some True) False] session_start))))
      = [example_task ''t1'' ''message'' ''0 8 * * *'' (Some True) False]"
proof -
  let ?t1 = "example_task ''t1'' ''message'' ''0 8 * * *'' (Some True) False"
  let ?t2 = "example_task ''t2'' ''message'' ''not-a-cron'' (Some True) False"
  let ?t3 = "example_task ''t3'' ''message'' ''@every 12h'' (Some True) False"
  let ?parse = "parseSchedule example_env"
  have p: "list_all (\<lambda>t. isTaskEnabled t \<and> task_Schedule t \<noteq> [] \<longrightarrow> ?parse (task_Schedule t)) [?t1]"
    by (simp add: example_env_def example_task_def)
  have en: "isTaskEnabled ?t2" by (simp add: isTaskEnabled_def example_task_def)
  have ne: "task_Schedule ?t2 \<noteq> []" by (simp add: example_task_def)
  have bad: "\<not> ?parse (task_Schedule ?t2)" by (simp add: example_env_def example_task_def)
  have en1: "isTaskEnabled ?t1 \<and> task_Schedule ?t1 \<noteq> []"
    by (simp add: isTaskEnabled_def example_task_def)
  have f: "filter (\<lambda>t. isTaskEnabled t \<and> task_Schedule t \<noteq> []) [?t1] = [?t1]"
    using en1 by simp
  have s0: "cron_entries (ses_scheduler session_start) = []"
    by (simp add: session_start_def NewScheduler_def)
  note th = schedule_loop_stops_at_first_malformed
              [OF p en ne bad, where post = "[?t3]" and s = session_start, unfolded append.simps f s0]
  from th have A: "snd (schedule_loop ?parse [?t1, ?t2, ?t3] session_start)
                    = Some (ScheduleParseError ''not-a-cron'')"
    by (simp add: example_task_def del: schedule_loop.simps)
  from th have B: "map entry_Task (cron_entries (ses_scheduler
                     (fst (schedule_loop ?parse [?t1, ?t2, ?t3] session_start)))) = [?t1]"
    by (simp del: schedule_loop.simps)
  from en ne bad A B show ?thesis by blast
qed

text \<open>
  Claim C2 as stated fails: with the malformed task \<open>t2\<close> first and the well-formed,
  enabled task \<open>t1\<close> after it, the daemon mode registers no entry at all.
\<close>

theorem registration_aborts_counterexample:
  "isTaskEnabled (example_task ''t1'' ''message'' ''0 8 * * *'' (Some True) False)
   \<and> parseSchedule example_env
        (task_Schedule (example_task ''t1'' ''message'' ''0 8 * * *'' (Some True) False))
   \<and> \<not> parseSchedule example_env
        (task_Schedule (example_task ''t2'' ''message'' ''not-a-cron'' (Some True) False))
   \<and> cron_entries (ses_scheduler (RunTasks example_env
        (acme_config [example_task ''t2'' ''message'' ''not-a-cron'' (Some True) False,
                      example_task ''t1'' ''message'' ''0 8 * * *'' (Some True) False]))) = []"
  by code_simp

end
